theory Spec2Isabelle
  imports Main "HOL-Library.Product_Lexorder"
begin

section \<open>MCNP universe and lattice wizard: lattice specifications, paths, grid selector\<close>

text \<open>
  A shallow embedding of \<^verbatim>\<open>mcnp_wizard.py\<close>: the \<^verbatim>\<open>LatticeSpec\<close> and \<^verbatim>\<open>Node\<close>
  dataclasses, the path builders of \<^verbatim>\<open>MCNPWizard\<close> and the state transitions of
  \<^verbatim>\<open>VisualLatticeSelector\<close>. Python integers are \<open>int\<close>, Python strings are
  \<open>string\<close>, an \<^verbatim>\<open>Optional\<close> field is an \<open>option\<close>, a Python set is a \<open>set\<close>.
\<close>

subsection \<open>Python string primitives\<close>

text \<open>\<^verbatim>\<open>str(n)\<close> for an integer: decimal digits, most significant first, with a
  leading minus sign for a negative number.\<close>

definition digit_char :: "nat \<Rightarrow> char" where
  "digit_char d = ''0123456789'' ! d"

function str_nat :: "nat \<Rightarrow> string" where
  "str_nat n = (if n < 10 then [digit_char n] else str_nat (n div 10) @ [digit_char (n mod 10)])"
  by pat_completeness auto
termination
  by (relation "measure id") auto

declare str_nat.simps [simp del]

definition str_int :: "int \<Rightarrow> string" where
  "str_int n = (if n < 0 then CHR ''-'' # str_nat (nat (- n)) else str_nat (nat n))"

text \<open>\<^verbatim>\<open>sep.join(parts)\<close>.\<close>

fun join :: "string \<Rightarrow> string list \<Rightarrow> string" where
  "join sep [] = []"
| "join sep [p] = p"
| "join sep (p # q # ps) = p @ sep @ join sep (q # ps)"

subsection \<open>LatticeSpec\<close>

text \<open>A dimension value is \<^verbatim>\<open>Union[int, Tuple[int, int]]\<close>: the code tells the two
  apart with \<^verbatim>\<open>isinstance(val, tuple)\<close>.\<close>

datatype dim = Single int | Range int int

text \<open>The dataclass. Its fields \<^verbatim>\<open>i\<close>, \<^verbatim>\<open>j\<close>, \<^verbatim>\<open>k\<close> are written \<open>spec_i\<close>,
  \<open>spec_j\<close>, \<open>spec_k\<close> here; all four fields default to \<^verbatim>\<open>None\<close>.\<close>

record LatticeSpec =
  spec_i :: "dim option"
  spec_j :: "dim option"
  spec_k :: "dim option"
  elements :: "(int \<times> int \<times> int) list option"

text \<open>The two ways the code builds a spec: \<^verbatim>\<open>LatticeSpec(i=.., j=.., k=..)\<close> and
  \<^verbatim>\<open>LatticeSpec(elements=..)\<close>.\<close>

definition Contiguous :: "dim \<Rightarrow> dim \<Rightarrow> dim \<Rightarrow> LatticeSpec" where
  "Contiguous di dj dk =
     \<lparr>spec_i = Some di, spec_j = Some dj, spec_k = Some dk, elements = None\<rparr>"

definition Discrete :: "(int \<times> int \<times> int) list \<Rightarrow> LatticeSpec" where
  "Discrete es = \<lparr>spec_i = None, spec_j = None, spec_k = None, elements = Some es\<rparr>"

definition is_contiguous :: "LatticeSpec \<Rightarrow> bool" where
  "is_contiguous sp = (elements sp = None)"

definition is_non_contiguous :: "LatticeSpec \<Rightarrow> bool" where
  "is_non_contiguous sp = (elements sp \<noteq> None)"

text \<open>\<^verbatim>\<open>format_dimension\<close>: a tuple is rendered \<^verbatim>\<open>min:max\<close>, anything else with
  \<^verbatim>\<open>str\<close> (so an unset field is rendered \<^verbatim>\<open>None\<close>).\<close>

fun format_dimension :: "dim option \<Rightarrow> string" where
  "format_dimension (Some (Range a b)) = str_int a @ '':'' @ str_int b"
| "format_dimension (Some (Single n)) = str_int n"
| "format_dimension None = ''None''"

definition to_mcnp_single_index :: "int \<times> int \<times> int \<Rightarrow> string" where
  "to_mcnp_single_index element =
     (case element of (e0, e1, e2) \<Rightarrow>
        ''['' @ str_int e0 @ '' '' @ str_int e1 @ '' '' @ str_int e2 @ '']'')"

definition to_mcnp_string :: "LatticeSpec \<Rightarrow> string" where
  "to_mcnp_string sp =
     (if is_contiguous sp then
        ''['' @ format_dimension (spec_i sp) @ '' '' @ format_dimension (spec_j sp)
          @ '' '' @ format_dimension (spec_k sp) @ '']''
      else
        (case elements sp of
           Some ((e0, e1, e2) # rest) \<Rightarrow>
             ''['' @ str_int e0 @ '' '' @ str_int e1 @ '' '' @ str_int e2 @ ''] (+''
               @ str_int (int (length ((e0, e1, e2) # rest)) - 1) @ '' more)''
         | _ \<Rightarrow> ''[empty]''))"

definition get_all_elements :: "LatticeSpec \<Rightarrow> (int \<times> int \<times> int) list" where
  "get_all_elements sp = (case elements sp of Some es \<Rightarrow> es | None \<Rightarrow> [])"

fun get_size :: "dim option \<Rightarrow> int" where
  "get_size (Some (Range a b)) = b - a + 1"
| "get_size _ = 1"

definition element_count :: "LatticeSpec \<Rightarrow> int" where
  "element_count sp =
     (case elements sp of
        Some es \<Rightarrow> int (length es)
      | None \<Rightarrow> get_size (spec_i sp) * get_size (spec_j sp) * get_size (spec_k sp))"

text \<open>The span size of a dimension in the words of the specification: \<open>max - min + 1\<close>
  for a range and \<open>1\<close> for a single index.\<close>

fun span_size :: "dim \<Rightarrow> int" where
  "span_size (Range lo hi) = hi - lo + 1"
| "span_size (Single n) = 1"

subsection \<open>Node and the universe stack\<close>

text \<open>The \<^verbatim>\<open>Node\<close> dataclass. Its field \<^verbatim>\<open>lattice_type\<close> is written
  \<open>node_lattice_type\<close>, the selector below having a field of the same name. The field
  \<^verbatim>\<open>transform\<close> (a numpy array kept for a future feature) is read by none of the
  functions below and is left out.\<close>

record Node =
  cell_id :: int
  universe_id :: "int option"
  fill_id :: "int option"
  is_lattice :: bool
  is_infinite_lattice :: bool
  lattice_spec :: "LatticeSpec option"
  node_lattice_type :: "int option"
  lattice_bounds :: "((int \<times> int) \<times> (int \<times> int) \<times> (int \<times> int)) option"

text \<open>\<^verbatim>\<open>Node(cell_id=c, ...)\<close> with the dataclass defaults for the fields not given.\<close>

definition mk_Node ::
  "int \<Rightarrow> int option \<Rightarrow> int option \<Rightarrow> bool \<Rightarrow> LatticeSpec option \<Rightarrow> Node" where
  "mk_Node c u f lat sp =
     \<lparr>cell_id = c, universe_id = u, fill_id = f, is_lattice = lat,
      is_infinite_lattice = False, lattice_spec = sp, node_lattice_type = None,
      lattice_bounds = None\<rparr>"

text \<open>The state of \<^verbatim>\<open>MCNPWizard\<close> that the path builders read.\<close>

record MCNPWizard =
  universe_stack :: "Node list"
  target_cell :: "int option"

datatype py_error = IndexError

text \<open>The test \<^verbatim>\<open>node.is_lattice and node.lattice_spec and
  node.lattice_spec.is_non_contiguous()\<close>; a dataclass instance is truthy, so
  \<^verbatim>\<open>node.lattice_spec\<close> is false only when it is \<^verbatim>\<open>None\<close>.\<close>

definition non_contiguous_node :: "Node \<Rightarrow> bool" where
  "non_contiguous_node node =
     (is_lattice node \<and>
      (case lattice_spec node of None \<Rightarrow> False | Some sp \<Rightarrow> is_non_contiguous sp))"

definition has_non_contiguous_lattice :: "MCNPWizard \<Rightarrow> bool" where
  "has_non_contiguous_lattice w = list_ex non_contiguous_node (universe_stack w)"

text \<open>The body of the loop of \<^verbatim>\<open>_build_single_path\<close>: the part appended for one
  node of \<^verbatim>\<open>universe_stack[1:]\<close>.\<close>

definition node_part :: "(int \<times> int \<times> int) option \<Rightarrow> Node \<Rightarrow> string" where
  "node_part lattice_element node =
     (if is_lattice node then
        (case lattice_spec node of
           None \<Rightarrow> str_int (cell_id node)
         | Some sp \<Rightarrow>
             (case lattice_element of
                Some e \<Rightarrow>
                  if is_non_contiguous sp then str_int (cell_id node) @ to_mcnp_single_index e
                  else if is_contiguous sp then str_int (cell_id node) @ to_mcnp_string sp
                  else str_int (cell_id node)
              | None \<Rightarrow>
                  if is_contiguous sp then str_int (cell_id node) @ to_mcnp_string sp
                  else str_int (cell_id node)))
      else str_int (cell_id node))"

text \<open>\<^verbatim>\<open>_build_single_path\<close>. Reading \<^verbatim>\<open>universe_stack[0]\<close> of an empty stack
  raises \<^verbatim>\<open>IndexError\<close>.\<close>

definition build_single_path ::
  "MCNPWizard \<Rightarrow> (int \<times> int \<times> int) option \<Rightarrow> py_error + string" where
  "build_single_path w lattice_element =
     (case universe_stack w of
        [] \<Rightarrow> Inl IndexError
      | n0 # rest \<Rightarrow>
          Inr (join '' < '' (str_int (cell_id n0) # map (node_part lattice_element) rest)))"

text \<open>The loop of \<^verbatim>\<open>_build_union_paths\<close> that builds one parenthesised path per
  element.\<close>

fun union_loop :: "MCNPWizard \<Rightarrow> (int \<times> int \<times> int) list \<Rightarrow> py_error + string list" where
  "union_loop w [] = Inr []"
| "union_loop w (element # es) =
     (case build_single_path w (Some element) of
        Inl err \<Rightarrow> Inl err
      | Inr single_path \<Rightarrow>
          (case union_loop w es of
             Inl err \<Rightarrow> Inl err
           | Inr paths \<Rightarrow> Inr ((''( '' @ single_path @ '' )'') # paths)))"

definition build_union_paths :: "MCNPWizard \<Rightarrow> py_error + string" where
  "build_union_paths w =
     (case find non_contiguous_node (universe_stack w) of
        None \<Rightarrow> build_single_path w None
      | Some node \<Rightarrow>
          (case lattice_spec node of
             None \<Rightarrow> build_single_path w None
           | Some sp \<Rightarrow>
               (case union_loop w (get_all_elements sp) of
                  Inl err \<Rightarrow> Inl err
                | Inr paths \<Rightarrow> Inr (''( '' @ join '' '' paths @ '' )''))))"

text \<open>\<^verbatim>\<open>_build_tally_path\<close>. With an empty stack the target cell is formatted with
  \<^verbatim>\<open>str\<close>, which renders an unset target as \<^verbatim>\<open>None\<close>.\<close>

definition build_tally_path :: "MCNPWizard \<Rightarrow> py_error + string" where
  "build_tally_path w =
     (if universe_stack w = [] then
        Inr (''( '' @ (case target_cell w of None \<Rightarrow> ''None'' | Some c \<Rightarrow> str_int c) @ '' )'')
      else if has_non_contiguous_lattice w then build_union_paths w
      else
        (case build_single_path w None of
           Inl err \<Rightarrow> Inl err
         | Inr path \<Rightarrow> Inr (''( '' @ path @ '' )'')))"

text \<open>\<^verbatim>\<open>_check_needs_sd_card\<close>: the loop over \<^verbatim>\<open>universe_stack[1:]\<close> returns at the
  first lattice node.\<close>

definition check_needs_sd_card :: "MCNPWizard \<Rightarrow> bool" where
  "check_needs_sd_card w =
     (if length (universe_stack w) > 1 then list_ex is_lattice (drop 1 (universe_stack w))
      else False)"

subsection \<open>VisualLatticeSelector\<close>

text \<open>The selector's fields. \<^verbatim>\<open>selected\<close> is a Python set of \<open>(i, j, k)\<close> tuples.\<close>

record VisualLatticeSelector =
  lattice_type :: int
  is_infinite :: bool
  i_bounds :: "int \<times> int"
  j_bounds :: "int \<times> int"
  k_bounds :: "int \<times> int"
  current_k :: int
  cursor_i :: int
  cursor_j :: int
  selected :: "(int \<times> int \<times> int) set"

text \<open>\<^verbatim>\<open>__init__\<close>: the cursor and the layer start at the midpoints (\<^verbatim>\<open>//\<close> is floor
  division, as \<open>div\<close> on \<open>int\<close> is).\<close>

definition selector_init ::
  "int \<Rightarrow> (int \<times> int) \<times> (int \<times> int) \<times> (int \<times> int) \<Rightarrow> bool \<Rightarrow> VisualLatticeSelector" where
  "selector_init lat_type bounds infinite_flag =
     (case bounds of (ib, jb, kb) \<Rightarrow>
        \<lparr>lattice_type = lat_type, is_infinite = infinite_flag,
         i_bounds = ib, j_bounds = jb, k_bounds = kb,
         current_k = (fst kb + snd kb) div 2,
         cursor_i = (fst ib + snd ib) div 2,
         cursor_j = (fst jb + snd jb) div 2,
         selected = {}\<rparr>)"

text \<open>\<^verbatim>\<open>_get_hex_neighbor\<close>; the direction is the string the code compares.\<close>

definition get_hex_neighbor :: "int \<Rightarrow> int \<Rightarrow> string \<Rightarrow> int \<times> int" where
  "get_hex_neighbor i j direction =
     (let is_odd_row = (j mod 2 = 1) in
      if direction = ''E'' then (i + 1, j)
      else if direction = ''W'' then (i - 1, j)
      else if direction = ''NE'' then (if is_odd_row then (i + 1, j - 1) else (i, j - 1))
      else if direction = ''NW'' then (if is_odd_row then (i, j - 1) else (i - 1, j - 1))
      else if direction = ''SE'' then (if is_odd_row then (i + 1, j + 1) else (i, j + 1))
      else if direction = ''SW'' then (if is_odd_row then (i, j + 1) else (i - 1, j + 1))
      else (i, j))"

text \<open>The hexagonal move of \<^verbatim>\<open>run\<close>: the neighbour is taken only when it lies inside
  the \<open>i\<close> and \<open>j\<close> bounds.\<close>

definition hex_move :: "VisualLatticeSelector \<Rightarrow> string \<Rightarrow> VisualLatticeSelector" where
  "hex_move s direction =
     (case get_hex_neighbor (cursor_i s) (cursor_j s) direction of
        (new_i, new_j) \<Rightarrow>
          if fst (i_bounds s) \<le> new_i \<and> new_i \<le> snd (i_bounds s) \<and>
             fst (j_bounds s) \<le> new_j \<and> new_j \<le> snd (j_bounds s)
          then s\<lparr>cursor_i := new_i, cursor_j := new_j\<rparr>
          else s)"

text \<open>The key codes \<^verbatim>\<open>getch\<close> delivers: \<^verbatim>\<open>ord\<close> of a character, and the four arrow
  keys of the curses library (\<^verbatim>\<open>KEY_DOWN\<close> 258, \<^verbatim>\<open>KEY_UP\<close> 259, \<^verbatim>\<open>KEY_LEFT\<close> 260,
  \<^verbatim>\<open>KEY_RIGHT\<close> 261).\<close>

definition KEY_DOWN :: int where "KEY_DOWN = 258"
definition KEY_UP :: int where "KEY_UP = 259"
definition KEY_LEFT :: int where "KEY_LEFT = 260"
definition KEY_RIGHT :: int where "KEY_RIGHT = 261"

definition ord :: "char \<Rightarrow> int" where
  "ord c = int (of_char c :: nat)"

text \<open>The three nested loops of the select-all key.\<close>

definition all_cells :: "VisualLatticeSelector \<Rightarrow> (int \<times> int \<times> int) list" where
  "all_cells s =
     concat (map (\<lambda>i. concat (map (\<lambda>j. map (\<lambda>k. (i, j, k))
        [fst (k_bounds s)..snd (k_bounds s)])
        [fst (j_bounds s)..snd (j_bounds s)]))
        [fst (i_bounds s)..snd (i_bounds s)])"

text \<open>One pass of the \<^verbatim>\<open>while True\<close> loop of \<^verbatim>\<open>run\<close> for a key that neither returns
  nor reads a second key: the branches from the toggle on, in the order of the
  \<^verbatim>\<open>elif\<close> chain. Drawing reads the state and does not change it.\<close>

definition key_step :: "VisualLatticeSelector \<Rightarrow> int \<Rightarrow> VisualLatticeSelector" where
  "key_step s key =
     (if key = ord (CHR 0x0A) \<or> key = ord CHR '' '' then
        (let cell = (cursor_i s, cursor_j s, current_k s) in
         if cell \<in> selected s then s\<lparr>selected := selected s - {cell}\<rparr>
         else s\<lparr>selected := insert cell (selected s)\<rparr>)
      else if key = KEY_UP then
        (if lattice_type s = 2 then hex_move s ''NW''
         else s\<lparr>cursor_j := max (fst (j_bounds s)) (cursor_j s - 1)\<rparr>)
      else if key = KEY_DOWN then
        (if lattice_type s = 2 then hex_move s ''SE''
         else s\<lparr>cursor_j := min (snd (j_bounds s)) (cursor_j s + 1)\<rparr>)
      else if key = KEY_LEFT then
        (if lattice_type s = 2 then hex_move s ''W''
         else s\<lparr>cursor_i := max (fst (i_bounds s)) (cursor_i s - 1)\<rparr>)
      else if key = KEY_RIGHT then
        (if lattice_type s = 2 then hex_move s ''E''
         else s\<lparr>cursor_i := min (snd (i_bounds s)) (cursor_i s + 1)\<rparr>)
      else if key = ord CHR ''e'' \<and> lattice_type s = 2 then hex_move s ''NE''
      else if key = ord CHR ''w'' \<and> lattice_type s = 2 then hex_move s ''NW''
      else if key = ord CHR ''x'' \<and> lattice_type s = 2 then hex_move s ''SE''
      else if key = ord CHR ''z'' \<and> lattice_type s = 2 then hex_move s ''SW''
      else if key = ord CHR ''['' \<or> key = ord CHR '','' \<or> key = ord CHR ''<'' then
        s\<lparr>current_k := max (fst (k_bounds s)) (current_k s - 1)\<rparr>
      else if key = ord CHR '']'' \<or> key = ord CHR ''.'' \<or> key = ord CHR ''>'' then
        s\<lparr>current_k := min (snd (k_bounds s)) (current_k s + 1)\<rparr>
      else if key = ord CHR ''a'' then s\<lparr>selected := selected s \<union> set (all_cells s)\<rparr>
      else if key = ord CHR ''c'' \<and> lattice_type s \<noteq> 2 then s\<lparr>selected := {}\<rparr>
      else if key = ord CHR ''r'' then s\<lparr>selected := {}\<rparr>
      else s)"

text \<open>\<^verbatim>\<open>_is_selection_contiguous\<close>. The minima and maxima are taken over the whole
  selection, so the order in which \<^verbatim>\<open>list(self.selected)\<close> enumerates the set does
  not matter. The three nested loops return \<^verbatim>\<open>False\<close> at the first cell of the box
  that is not selected.\<close>

definition is_selection_contiguous :: "VisualLatticeSelector \<Rightarrow> bool" where
  "is_selection_contiguous s =
     (if selected s = {} then True
      else if card (selected s) = 1 then True
      else
        (let i_vals = (\<lambda>cell. fst cell) ` selected s;
             j_vals = (\<lambda>cell. fst (snd cell)) ` selected s;
             k_vals = (\<lambda>cell. snd (snd cell)) ` selected s;
             i_min = Min i_vals; i_max = Max i_vals;
             j_min = Min j_vals; j_max = Max j_vals;
             k_min = Min k_vals; k_max = Max k_vals;
             expected_count = (i_max - i_min + 1) * (j_max - j_min + 1) * (k_max - k_min + 1);
             actual_count = int (card (selected s))
         in if expected_count = actual_count then
              list_all (\<lambda>i. list_all (\<lambda>j. list_all (\<lambda>k. (i, j, k) \<in> selected s)
                [k_min..k_max]) [j_min..j_max]) [i_min..i_max]
            else False))"

definition make_spec_dim :: "int \<Rightarrow> int \<Rightarrow> dim" where
  "make_spec_dim min_val max_val =
     (if min_val = max_val then Single min_val else Range min_val max_val)"

text \<open>\<^verbatim>\<open>_create_lattice_spec\<close>; \<^verbatim>\<open>sorted\<close> orders tuples lexicographically, which is
  the order of \<open>int \<times> int \<times> int\<close> here.\<close>

definition create_lattice_spec :: "VisualLatticeSelector \<Rightarrow> LatticeSpec option" where
  "create_lattice_spec s =
     (if selected s = {} then None
      else if is_selection_contiguous s then
        (let i_vals = (\<lambda>cell. fst cell) ` selected s;
             j_vals = (\<lambda>cell. fst (snd cell)) ` selected s;
             k_vals = (\<lambda>cell. snd (snd cell)) ` selected s
         in Some (Contiguous (make_spec_dim (Min i_vals) (Max i_vals))
                             (make_spec_dim (Min j_vals) (Max j_vals))
                             (make_spec_dim (Min k_vals) (Max k_vals))))
      else Some (Discrete (sorted_list_of_set (selected s))))"

text \<open>The loop of \<^verbatim>\<open>run\<close> over the keys \<^verbatim>\<open>getch\<close> delivers. The loop leaves only by
  a \<^verbatim>\<open>return\<close>; when the keys given are used up it is waiting in \<^verbatim>\<open>getch\<close>. After the
  message for a finish key with nothing selected, one more key is read and dropped.\<close>

datatype run_result = Returned "LatticeSpec option" | Awaiting_key

fun run :: "VisualLatticeSelector \<Rightarrow> int list \<Rightarrow> run_result \<times> VisualLatticeSelector" where
  "run s [] = (Awaiting_key, s)"
| "run s [key] =
     (if key = ord CHR ''q'' \<or> key = 27 then (Returned None, s)
      else if key = ord (CHR 0x0A) \<or> key = ord CHR '' '' then (Awaiting_key, key_step s key)
      else if key = ord CHR ''d'' then
        (if selected s \<noteq> {} then (Returned (create_lattice_spec s), s)
         else (Awaiting_key, s))
      else (Awaiting_key, key_step s key))"
| "run s (key # any_key # keys) =
     (if key = ord CHR ''q'' \<or> key = 27 then (Returned None, s)
      else if key = ord (CHR 0x0A) \<or> key = ord CHR '' '' then
        run (key_step s key) (any_key # keys)
      else if key = ord CHR ''d'' then
        (if selected s \<noteq> {} then (Returned (create_lattice_spec s), s)
         else run s keys)
      else run (key_step s key) (any_key # keys))"

subsection \<open>Construction of a LatticeSpec\<close>

text \<open>The error kinds the specification names for building a spec. The dataclass has
  no \<^verbatim>\<open>__post_init__\<close> and no \<^verbatim>\<open>raise\<close>: the generated \<^verbatim>\<open>__init__\<close> stores its four
  arguments as they are, so the error alternative is never taken.\<close>

datatype spec_error = InvalidRange | EmptySelection

definition LatticeSpec_init ::
  "dim option \<Rightarrow> dim option \<Rightarrow> dim option \<Rightarrow> (int \<times> int \<times> int) list option
     \<Rightarrow> spec_error + LatticeSpec" where
  "LatticeSpec_init di dj dk es =
     Inr \<lparr>spec_i = di, spec_j = dj, spec_k = dk, elements = es\<rparr>"

subsection \<open>Auxiliary notions for stating the properties\<close>

text \<open>One hexagonal move applied to a cell \<open>(i, j)\<close>.\<close>

definition hex_step :: "string \<Rightarrow> int \<times> int \<Rightarrow> int \<times> int" where
  "hex_step direction cell = get_hex_neighbor (fst cell) (snd cell) direction"

text \<open>A coordinate lies within an inclusive pair of bounds; the cursor and the layer of
  a selector lie within the selector's bounds.\<close>

definition within :: "int \<times> int \<Rightarrow> int \<Rightarrow> bool" where
  "within bnds x \<longleftrightarrow> fst bnds \<le> x \<and> x \<le> snd bnds"

definition cursor_in_bounds :: "VisualLatticeSelector \<Rightarrow> bool" where
  "cursor_in_bounds s \<longleftrightarrow>
     within (i_bounds s) (cursor_i s) \<and> within (j_bounds s) (cursor_j s)
     \<and> within (k_bounds s) (current_k s)"

text \<open>The bounding box of a selection in the words of the specification: the least and
  greatest value on each axis, the box they span, its volume, and the lexicographic
  order on triples.\<close>

definition axis_min :: "('c \<Rightarrow> int) \<Rightarrow> 'c set \<Rightarrow> int" where
  "axis_min proj S = Min (proj ` S)"

definition axis_max :: "('c \<Rightarrow> int) \<Rightarrow> 'c set \<Rightarrow> int" where
  "axis_max proj S = Max (proj ` S)"

definition bbox :: "(int \<times> int \<times> int) set \<Rightarrow> (int \<times> int \<times> int) set" where
  "bbox S =
     {axis_min fst S .. axis_max fst S} \<times>
     {axis_min (fst \<circ> snd) S .. axis_max (fst \<circ> snd) S} \<times>
     {axis_min (snd \<circ> snd) S .. axis_max (snd \<circ> snd) S}"

definition bbox_volume :: "(int \<times> int \<times> int) set \<Rightarrow> int" where
  "bbox_volume S =
     (axis_max fst S - axis_min fst S + 1) *
     (axis_max (fst \<circ> snd) S - axis_min (fst \<circ> snd) S + 1) *
     (axis_max (snd \<circ> snd) S - axis_min (snd \<circ> snd) S + 1)"

definition lex_less :: "int \<times> int \<times> int \<Rightarrow> int \<times> int \<times> int \<Rightarrow> bool" where
  "lex_less a b =
     (case a of (i, j, k) \<Rightarrow> case b of (i', j', k') \<Rightarrow>
        i < i' \<or> (i = i' \<and> (j < j' \<or> (j = j' \<and> k < k'))))"

text \<open>The stacks of the end-to-end scenarios B and C of the specification (they are the
  stacks of examples 2 and 8 in \<^verbatim>\<open>examples.py\<close>).\<close>

definition scenario_B :: MCNPWizard where
  "scenario_B =
     \<lparr>universe_stack =
        [mk_Node 101 (Some 5) None False None,
         mk_Node 50 (Some 100) (Some 5) True (Some (Contiguous (Single 3) (Single 4) (Single 0))),
         mk_Node 1 (Some 0) (Some 100) False None],
      target_cell = Some 101\<rparr>"

definition scenario_C :: MCNPWizard where
  "scenario_C =
     \<lparr>universe_stack =
        [mk_Node 101 (Some 5) None False None,
         mk_Node 50 (Some 100) (Some 5) True
           (Some (Discrete [(0, 0, 0), (9, 9, 0), (0, 9, 0), (9, 0, 0)])),
         mk_Node 1 (Some 0) (Some 100) False None],
      target_cell = Some 101\<rparr>"

text \<open>Two further stacks: one whose target cell (index \<open>0\<close>) is itself a lattice cell
  with a contiguous spec, and one in which two lattice cells carry a discrete spec.\<close>

definition lattice_target :: MCNPWizard where
  "lattice_target =
     \<lparr>universe_stack =
        [mk_Node 50 (Some 100) None True (Some (Contiguous (Single 3) (Single 4) (Single 0))),
         mk_Node 1 (Some 0) (Some 100) False None],
      target_cell = Some 50\<rparr>"

definition two_discrete :: MCNPWizard where
  "two_discrete =
     \<lparr>universe_stack =
        [mk_Node 101 (Some 5) None False None,
         mk_Node 50 (Some 7) (Some 5) True (Some (Discrete [(0, 0, 0), (1, 1, 0)])),
         mk_Node 60 (Some 100) (Some 7) True (Some (Discrete [(5, 5, 5)])),
         mk_Node 1 (Some 0) (Some 100) False None],
      target_cell = Some 101\<rparr>"

text \<open>The token of a node as the specification words it for a path without discrete
  specs: the cell identifier, followed by the range token when the node is a lattice
  node with a spec.\<close>

definition range_token_part :: "Node \<Rightarrow> string" where
  "range_token_part node =
     str_int (cell_id node) @
     (case lattice_spec node of
        Some sp \<Rightarrow> if is_lattice node then to_mcnp_string sp else []
      | None \<Rightarrow> [])"

text \<open>The token of a node of \<^verbatim>\<open>universe_stack[1:]\<close> in a path built for the element
  \<open>e\<close>: every lattice node with a discrete spec gets the index token of \<open>e\<close>.\<close>

definition override_token :: "int \<times> int \<times> int \<Rightarrow> Node \<Rightarrow> string" where
  "override_token e node =
     (if non_contiguous_node node then str_int (cell_id node) @ to_mcnp_single_index e
      else node_part None node)"

text \<open>The union path as the specification words its tie-break: the elements come from
  the first node with a discrete spec, that node gets the index token of the element,
  and any other node with a discrete spec contributes its bare cell identifier.\<close>

definition first_match_token :: "Node \<Rightarrow> int \<times> int \<times> int \<Rightarrow> Node \<Rightarrow> string" where
  "first_match_token first e node =
     (if node = first then str_int (cell_id node) @ to_mcnp_single_index e
      else if non_contiguous_node node then str_int (cell_id node)
      else node_part None node)"

definition first_match_union :: "Node list \<Rightarrow> string" where
  "first_match_union stack =
     (case find non_contiguous_node stack of
        None \<Rightarrow> []
      | Some first \<Rightarrow>
          ''( '' @ join '' ''
            (map (\<lambda>e. ''( '' @ join '' < ''
                (str_int (cell_id (hd stack)) # map (first_match_token first e) (tl stack)) @ '' )'')
              (case lattice_spec first of Some sp \<Rightarrow> get_all_elements sp | None \<Rightarrow> []))
          @ '' )'')"

section \<open>Properties\<close>

subsection \<open>Formatting\<close>

lemma digit_char_in: "d < 10 \<Longrightarrow> digit_char d \<in> set ''0123456789''"
  unfolding digit_char_def by (rule nth_mem) simp

lemma str_nat_chars: "set (str_nat n) \<subseteq> set ''0123456789''"
proof (induction n rule: str_nat.induct)
  case (1 n)
  show ?case
  proof (cases "n < 10")
    case True
    then show ?thesis using digit_char_in [of n] by (subst str_nat.simps) simp
  next
    case False
    have "n mod 10 < 10" by simp
    then have "digit_char (n mod 10) \<in> set ''0123456789''" by (rule digit_char_in)
    with False 1 show ?thesis by (subst str_nat.simps) simp
  qed
qed

lemma str_int_no_comma: "CHR '','' \<notin> set (str_int n)"
  using str_nat_chars [of "nat n"] str_nat_chars [of "nat (- n)"]
  by (auto simp: str_int_def)

lemma format_dimension_no_comma: "CHR '','' \<notin> set (format_dimension (Some d))"
  by (cases d) (simp_all add: str_int_no_comma)

text \<open>
  C9. \<open>format_dimension\<close> renders \<open>Single n\<close> as the decimal numeral of \<open>n\<close> and
  \<open>Range a b\<close> as the numeral of \<open>a\<close>, a colon and the numeral of \<open>b\<close> (for all \<open>a\<close> and
  \<open>b\<close>, so in particular for \<open>a \<le> b\<close>). The range token of a contiguous spec is an opening
  bracket, the three formatted dimensions joined by single spaces, and a closing
  bracket; no comma occurs in it.
\<close>

theorem format_dimension_range_token:
  "format_dimension (Some (Single n)) = str_int n
   \<and> format_dimension (Some (Range a b)) = str_int a @ '':'' @ str_int b
   \<and> to_mcnp_string (Contiguous di dj dk) =
       ''['' @ join '' '' [format_dimension (Some di), format_dimension (Some dj),
                           format_dimension (Some dk)] @ '']''
   \<and> CHR '','' \<notin> set (to_mcnp_string (Contiguous di dj dk))"
  by (simp add: to_mcnp_string_def Contiguous_def is_contiguous_def format_dimension_no_comma)

text \<open>
  C8. \<open>element_count\<close> of a contiguous spec is the product of the span sizes of its
  three axes (\<open>max - min + 1\<close> for a range, \<open>1\<close> for a single index); of a discrete spec
  it is the number of its elements.
\<close>

theorem element_count_spans:
  "element_count (Contiguous di dj dk) = span_size di * span_size dj * span_size dk
   \<and> element_count (Discrete es) = int (length es)"
  by (cases di; cases dj; cases dk) (simp_all add: element_count_def Contiguous_def Discrete_def)

subsection \<open>Hexagonal neighbours\<close>

text \<open>
  C5. A hexagonal move followed by the opposite move returns to the starting cell, for
  every cell \<open>(i, j)\<close>, whatever the parity of the row \<open>j\<close>: east and west, north-east
  and south-west, north-west and south-east, in either order.
\<close>

theorem hex_neighbor_invertible:
  "hex_step ''W'' (hex_step ''E'' (i, j)) = (i, j)
   \<and> hex_step ''E'' (hex_step ''W'' (i, j)) = (i, j)
   \<and> hex_step ''SW'' (hex_step ''NE'' (i, j)) = (i, j)
   \<and> hex_step ''NE'' (hex_step ''SW'' (i, j)) = (i, j)
   \<and> hex_step ''SE'' (hex_step ''NW'' (i, j)) = (i, j)
   \<and> hex_step ''NW'' (hex_step ''SE'' (i, j)) = (i, j)"
proof -
  have par: "(j - 1) mod 2 = 1 \<longleftrightarrow> j mod 2 \<noteq> 1" "(j + 1) mod 2 = 1 \<longleftrightarrow> j mod 2 \<noteq> 1"
    by presburger+
  show ?thesis
    by (simp add: hex_step_def get_hex_neighbor_def Let_def par)
qed

subsection \<open>The SD-card check\<close>

text \<open>
  C7. \<open>check_needs_sd_card\<close> holds exactly when some node of the stack at an index other
  than \<open>0\<close> has its lattice flag set.
\<close>

theorem needs_sd_card_iff:
  "check_needs_sd_card w \<longleftrightarrow>
     (\<exists>idx. 0 < idx \<and> idx < length (universe_stack w) \<and> is_lattice (universe_stack w ! idx))"
proof -
  have "list_ex is_lattice (drop 1 xs) \<longleftrightarrow> (\<exists>idx. 0 < idx \<and> idx < length xs \<and> is_lattice (xs ! idx))"
    for xs :: "Node list"
  proof (cases xs)
    case Nil
    then show ?thesis by simp
  next
    case (Cons x rest)
    have "(\<exists>n < length rest. is_lattice (rest ! n)) \<longleftrightarrow>
          (\<exists>idx. 0 < idx \<and> idx < Suc (length rest) \<and> is_lattice ((x # rest) ! idx))"
    proof
      assume "\<exists>n < length rest. is_lattice (rest ! n)"
      then obtain n where "n < length rest" "is_lattice (rest ! n)" by blast
      then have "0 < Suc n \<and> Suc n < Suc (length rest) \<and> is_lattice ((x # rest) ! Suc n)" by simp
      then show "\<exists>idx. 0 < idx \<and> idx < Suc (length rest) \<and> is_lattice ((x # rest) ! idx)" by blast
    next
      assume "\<exists>idx. 0 < idx \<and> idx < Suc (length rest) \<and> is_lattice ((x # rest) ! idx)"
      then obtain idx where h: "0 < idx" "idx < Suc (length rest)" "is_lattice ((x # rest) ! idx)" by blast
      then obtain n where "idx = Suc n" by (cases idx) auto
      with h have "n < length rest \<and> is_lattice (rest ! n)" by simp
      then show "\<exists>n < length rest. is_lattice (rest ! n)" by blast
    qed
    moreover have "(\<exists>y\<in>set rest. is_lattice y) \<longleftrightarrow> (\<exists>n < length rest. is_lattice (rest ! n))"
      by (metis in_set_conv_nth)
    ultimately show ?thesis using Cons by (simp add: list_ex_iff)
  qed
  then show ?thesis
    by (auto simp: check_needs_sd_card_def)
qed

subsection \<open>The selector keeps its cursor in bounds\<close>

lemma hex_move_bounds [simp]:
  "i_bounds (hex_move s d) = i_bounds s" "j_bounds (hex_move s d) = j_bounds s"
  "k_bounds (hex_move s d) = k_bounds s"
  by (simp_all add: hex_move_def split: prod.splits)

lemma hex_move_in_bounds: "cursor_in_bounds s \<Longrightarrow> cursor_in_bounds (hex_move s d)"
  by (auto simp: hex_move_def cursor_in_bounds_def within_def split: prod.splits)

lemma key_step_bounds [simp]:
  "i_bounds (key_step s key) = i_bounds s" "j_bounds (key_step s key) = j_bounds s"
  "k_bounds (key_step s key) = k_bounds s"
  by (simp_all add: key_step_def Let_def)

lemma key_step_in_bounds:
  assumes "cursor_in_bounds s"
  shows "cursor_in_bounds (key_step s key)"
proof -
  have hex: "cursor_in_bounds (hex_move s d)" for d
    using assms by (rule hex_move_in_bounds)
  have rect: "cursor_in_bounds (s\<lparr>cursor_j := max (fst (j_bounds s)) (cursor_j s - 1)\<rparr>)"
    "cursor_in_bounds (s\<lparr>cursor_j := min (snd (j_bounds s)) (cursor_j s + 1)\<rparr>)"
    "cursor_in_bounds (s\<lparr>cursor_i := max (fst (i_bounds s)) (cursor_i s - 1)\<rparr>)"
    "cursor_in_bounds (s\<lparr>cursor_i := min (snd (i_bounds s)) (cursor_i s + 1)\<rparr>)"
    "cursor_in_bounds (s\<lparr>current_k := max (fst (k_bounds s)) (current_k s - 1)\<rparr>)"
    "cursor_in_bounds (s\<lparr>current_k := min (snd (k_bounds s)) (current_k s + 1)\<rparr>)"
    using assms by (auto simp: cursor_in_bounds_def within_def)
  have sel: "cursor_in_bounds (s\<lparr>selected := X\<rparr>)" for X
    using assms by (simp add: cursor_in_bounds_def)
  show ?thesis
    unfolding key_step_def Let_def using assms by (simp add: hex rect sel)
qed

lemma run_bounds:
  "i_bounds (snd (run s keys)) = i_bounds s \<and> j_bounds (snd (run s keys)) = j_bounds s
   \<and> k_bounds (snd (run s keys)) = k_bounds s"
  by (induction s keys rule: run.induct) simp_all

lemma run_in_bounds: "cursor_in_bounds s \<Longrightarrow> cursor_in_bounds (snd (run s keys))"
  by (induction s keys rule: run.induct) (simp_all add: key_step_in_bounds)

lemma midpoint_within: "lo \<le> hi \<Longrightarrow> within (lo, hi) ((lo + hi) div 2)"
  for lo hi :: int
  unfolding within_def by simp linarith

lemma init_in_bounds:
  assumes "i_lo \<le> i_hi" "j_lo \<le> j_hi" "k_lo \<le> k_hi"
  shows "cursor_in_bounds (selector_init lat ((i_lo, i_hi), (j_lo, j_hi), (k_lo, k_hi)) infinite_flag)"
  using assms by (simp add: selector_init_def cursor_in_bounds_def midpoint_within)

text \<open>
  C10. Given bounds with \<open>min \<le> max\<close> on \<open>i\<close>, \<open>j\<close> and \<open>k\<close>, the cursor \<open>(i, j)\<close> and
  the layer \<open>k\<close> start at the midpoints and lie within the bounds right after
  initialisation, and they lie within
  the same bounds in the state the loop of \<open>run\<close> has reached after any sequence of keys
  (moves, layer changes, toggle, select-all, clear, and keys that do nothing).
\<close>

theorem cursor_stays_in_bounds:
  assumes "i_lo \<le> i_hi" and "j_lo \<le> j_hi" and "k_lo \<le> k_hi"
    and "s0 = selector_init lat ((i_lo, i_hi), (j_lo, j_hi), (k_lo, k_hi)) infinite_flag"
    and "s = snd (run s0 keys)"
  shows "cursor_i s0 = (i_lo + i_hi) div 2 \<and> cursor_j s0 = (j_lo + j_hi) div 2
         \<and> current_k s0 = (k_lo + k_hi) div 2
         \<and> within (i_lo, i_hi) (cursor_i s0) \<and> within (j_lo, j_hi) (cursor_j s0)
         \<and> within (k_lo, k_hi) (current_k s0)
         \<and> within (i_lo, i_hi) (cursor_i s) \<and> within (j_lo, j_hi) (cursor_j s)
         \<and> within (k_lo, k_hi) (current_k s)"
proof -
  have b0: "i_bounds s0 = (i_lo, i_hi)" "j_bounds s0 = (j_lo, j_hi)" "k_bounds s0 = (k_lo, k_hi)"
    using assms(4) by (simp_all add: selector_init_def)
  have c0: "cursor_in_bounds s0"
    unfolding assms(4) using assms(1-3) by (rule init_in_bounds)
  then have c: "cursor_in_bounds s"
    unfolding assms(5) by (rule run_in_bounds)
  have b: "i_bounds s = (i_lo, i_hi)" "j_bounds s = (j_lo, j_hi)" "k_bounds s = (k_lo, k_hi)"
    using run_bounds [of s0 keys] b0 assms(5) by simp_all
  have m0: "cursor_i s0 = (i_lo + i_hi) div 2" "cursor_j s0 = (j_lo + j_hi) div 2"
    "current_k s0 = (k_lo + k_hi) div 2"
    using assms(4) by (simp_all add: selector_init_def)
  have "within (i_lo, i_hi) (cursor_i s0) \<and> within (j_lo, j_hi) (cursor_j s0)
         \<and> within (k_lo, k_hi) (current_k s0)
         \<and> within (i_lo, i_hi) (cursor_i s) \<and> within (j_lo, j_hi) (cursor_j s)
         \<and> within (k_lo, k_hi) (current_k s)"
    using c0 c b0 b by (simp add: cursor_in_bounds_def)
  with m0 show ?thesis by blast
qed

theorem cursor_stays_in_bounds_witness:
  "(0::int) \<le> 9 \<and> (0::int) \<le> 4 \<and> (0::int) \<le> 2
   \<and> within (0, 9) (cursor_i (snd (run (selector_init 2 ((0, 9), (0, 4), (0, 2)) False)
        [KEY_UP, KEY_UP, KEY_UP, KEY_UP, ord CHR ''e'', ord CHR '']'', ord CHR '']'', ord CHR ''a'', KEY_RIGHT])))
   \<and> within (0, 4) (cursor_j (snd (run (selector_init 2 ((0, 9), (0, 4), (0, 2)) False)
        [KEY_UP, KEY_UP, KEY_UP, KEY_UP, ord CHR ''e'', ord CHR '']'', ord CHR '']'', ord CHR ''a'', KEY_RIGHT])))
   \<and> within (0, 2) (current_k (snd (run (selector_init 2 ((0, 9), (0, 4), (0, 2)) False)
        [KEY_UP, KEY_UP, KEY_UP, KEY_UP, ord CHR ''e'', ord CHR '']'', ord CHR '']'', ord CHR ''a'', KEY_RIGHT])))"
  using cursor_stays_in_bounds [of 0 9 0 4 0 2 _ 2 False _
     "[KEY_UP, KEY_UP, KEY_UP, KEY_UP, ord CHR ''e'', ord CHR '']'', ord CHR '']'', ord CHR ''a'', KEY_RIGHT]",
     OF _ _ _ refl refl]
  by simp

subsection \<open>Contiguity analysis\<close>

lemma lex_less_is_less: "lex_less a b \<longleftrightarrow> a < b"
  by (cases a; cases b) (auto simp: lex_less_def less_prod_def)

lemma box_check:
  "list_all (\<lambda>i. list_all (\<lambda>j. list_all (\<lambda>k. (i, j, k) \<in> S) [kl..kh]) [jl..jh]) [il..ih]
   \<longleftrightarrow> {il..ih} \<times> {jl..jh} \<times> {kl..kh} \<subseteq> S"
  by (auto simp: list_all_iff)

lemma singleton_box:
  assumes "card S = 1"
  shows "bbox S \<subseteq> S \<and> bbox_volume S = 1"
proof -
  from assms obtain c where "S = {c}" by (auto simp: card_1_singleton_iff)
  then show ?thesis
    by (cases c) (auto simp: bbox_def bbox_volume_def axis_min_def axis_max_def)
qed

lemma is_selection_contiguous_iff:
  assumes "selected s \<noteq> {}"
  shows "is_selection_contiguous s \<longleftrightarrow>
         int (card (selected s)) = bbox_volume (selected s) \<and> bbox (selected s) \<subseteq> selected s"
proof (cases "card (selected s) = 1")
  case True
  with singleton_box [OF True] assms show ?thesis
    by (simp add: is_selection_contiguous_def)
next
  case False
  with assms show ?thesis
    unfolding is_selection_contiguous_def Let_def box_check
    by (auto simp: bbox_def bbox_volume_def axis_min_def axis_max_def comp_def)
qed

text \<open>
  C1. For a non-empty selection, \<open>create_lattice_spec\<close> decides by the bounding box over
  \<open>i\<close>, \<open>j\<close> and \<open>k\<close> jointly: when the size of the selection equals the volume of the box
  and every triple of the box is selected, the result is a contiguous spec whose
  dimension on an axis is \<open>Single\<close> when the minimum equals the maximum and
  \<open>Range min max\<close> otherwise; in every other case it is a discrete spec whose elements
  are the selection in ascending lexicographic order.
\<close>

theorem create_lattice_spec_contiguity:
  assumes "finite (selected s)" and "selected s \<noteq> {}"
  shows "if int (card (selected s)) = bbox_volume (selected s) \<and> bbox (selected s) \<subseteq> selected s
         then create_lattice_spec s =
                Some (Contiguous
                  (if axis_min fst (selected s) = axis_max fst (selected s)
                   then Single (axis_min fst (selected s))
                   else Range (axis_min fst (selected s)) (axis_max fst (selected s)))
                  (if axis_min (fst \<circ> snd) (selected s) = axis_max (fst \<circ> snd) (selected s)
                   then Single (axis_min (fst \<circ> snd) (selected s))
                   else Range (axis_min (fst \<circ> snd) (selected s)) (axis_max (fst \<circ> snd) (selected s)))
                  (if axis_min (snd \<circ> snd) (selected s) = axis_max (snd \<circ> snd) (selected s)
                   then Single (axis_min (snd \<circ> snd) (selected s))
                   else Range (axis_min (snd \<circ> snd) (selected s)) (axis_max (snd \<circ> snd) (selected s))))
         else (\<exists>es. create_lattice_spec s = Some (Discrete es) \<and> set es = selected s
                 \<and> sorted_wrt lex_less es)"
proof -
  have srt: "sorted_wrt lex_less (sorted_list_of_set (selected s))"
  proof -
    have "sorted_wrt (<) (sorted_list_of_set (selected s))"
      by (rule strict_sorted_list_of_set)
    moreover have "lex_less = (<)"
      by (intro ext) (rule lex_less_is_less)
    ultimately show ?thesis by simp
  qed
  let ?box = "int (card (selected s)) = bbox_volume (selected s) \<and> bbox (selected s) \<subseteq> selected s"
  show ?thesis
  proof (cases ?box)
    case True
    then have "is_selection_contiguous s"
      using assms(2) by (simp add: is_selection_contiguous_iff)
    with assms(2) have res: "create_lattice_spec s =
        Some (Contiguous
          (if axis_min fst (selected s) = axis_max fst (selected s)
           then Single (axis_min fst (selected s))
           else Range (axis_min fst (selected s)) (axis_max fst (selected s)))
          (if axis_min (fst \<circ> snd) (selected s) = axis_max (fst \<circ> snd) (selected s)
           then Single (axis_min (fst \<circ> snd) (selected s))
           else Range (axis_min (fst \<circ> snd) (selected s)) (axis_max (fst \<circ> snd) (selected s)))
          (if axis_min (snd \<circ> snd) (selected s) = axis_max (snd \<circ> snd) (selected s)
           then Single (axis_min (snd \<circ> snd) (selected s))
           else Range (axis_min (snd \<circ> snd) (selected s)) (axis_max (snd \<circ> snd) (selected s))))"
      unfolding create_lattice_spec_def Let_def make_spec_dim_def axis_min_def axis_max_def comp_def
      by (simp only: if_False if_True)
    show ?thesis
      unfolding if_P [OF True] by (rule res)
  next
    case False
    then have "\<not> is_selection_contiguous s"
      using assms(2) by (simp add: is_selection_contiguous_iff)
    with assms(2) have "create_lattice_spec s = Some (Discrete (sorted_list_of_set (selected s)))"
      by (simp add: create_lattice_spec_def)
    moreover have "set (sorted_list_of_set (selected s)) = selected s"
      using assms(1) by simp
    ultimately have "\<exists>es. create_lattice_spec s = Some (Discrete es) \<and> set es = selected s
        \<and> sorted_wrt lex_less es"
      using srt by blast
    with False show ?thesis by (simp only: if_False)
  qed
qed

theorem create_lattice_spec_contiguity_witness:
  "finite {(3, 0, 0), (4, 0, 0), (5, 0, 0 :: int)} \<and> {(3, 0, 0), (4, 0, 0), (5, 0, 0 :: int)} \<noteq> {}
   \<and> create_lattice_spec (selector_init 1 ((0, 9), (0, 2), (0, 0)) False
         \<lparr>selected := {(3, 0, 0), (4, 0, 0), (5, 0, 0)}\<rparr>) =
       Some (Contiguous (Range 3 5) (Single 0) (Single 0))
   \<and> (\<exists>es. create_lattice_spec (selector_init 1 ((0, 9), (0, 2), (0, 0)) False
         \<lparr>selected := {(0, 0, 0), (1, 1, 0)}\<rparr>) = Some (Discrete es)
         \<and> set es = {(0, 0, 0), (1, 1, 0)} \<and> sorted_wrt lex_less es)"
proof -
  let ?s = "selector_init 1 ((0, 9), (0, 2), (0, 0)) False \<lparr>selected := {(0, 0, 0), (1, 1, 0)}\<rparr>"
  let ?t = "selector_init 1 ((0, 9), (0, 2), (0, 0)) False
              \<lparr>selected := {(3, 0, 0), (4, 0, 0), (5, 0, 0)}\<rparr>"
  have fin: "finite (selected ?s)" "selected ?s \<noteq> {}" "finite (selected ?t)" "selected ?t \<noteq> {}"
    by simp_all
  have vs: "bbox_volume (selected ?s) = 4" "int (card (selected ?s)) = 2"
    by (simp_all add: bbox_volume_def axis_min_def axis_max_def)
  have vt: "bbox_volume (selected ?t) = 3" "int (card (selected ?t)) = 3"
    by (simp_all add: bbox_volume_def axis_min_def axis_max_def)
  have bt: "bbox (selected ?t) \<subseteq> selected ?t"
    by (auto simp: bbox_def axis_min_def axis_max_def)
  have "create_lattice_spec ?t = Some (Contiguous (Range 3 5) (Single 0) (Single 0))"
    using create_lattice_spec_contiguity [OF fin(3,4)] vt bt
    by (simp add: axis_min_def axis_max_def)
  moreover have "\<exists>es. create_lattice_spec ?s = Some (Discrete es)
         \<and> set es = {(0, 0, 0), (1, 1, 0)} \<and> sorted_wrt lex_less es"
    using create_lattice_spec_contiguity [OF fin(1,2)] vs by simp
  ultimately show ?thesis by simp
qed

subsection \<open>Path construction\<close>

lemma build_single_path_Cons:
  "universe_stack w = n0 # rest \<Longrightarrow>
   build_single_path w le = Inr (join '' < '' (str_int (cell_id n0) # map (node_part le) rest))"
  by (simp add: build_single_path_def)

lemma union_loop_Cons:
  assumes "universe_stack w = n0 # rest"
  shows "union_loop w es =
         Inr (map (\<lambda>e. ''( '' @ join '' < '' (str_int (cell_id n0) # map (node_part (Some e)) rest) @ '' )'') es)"
  by (induction es) (simp_all add: build_single_path_Cons [OF assms])

lemma find_in_stack:
  assumes "find non_contiguous_node stack = Some node"
  shows "stack \<noteq> [] \<and> list_ex non_contiguous_node stack \<and> non_contiguous_node node"
proof -
  from assms obtain idx where "idx < length stack" "non_contiguous_node (stack ! idx)" "node = stack ! idx"
    by (auto simp: find_Some_iff)
  then show ?thesis
    by (auto simp: list_ex_iff)
qed

lemma build_tally_path_first_discrete:
  assumes "universe_stack w = n0 # rest"
    and "find non_contiguous_node (n0 # rest) = Some node"
    and "lattice_spec node = Some sp" and "elements sp = Some es"
  shows "build_tally_path w =
         Inr (''( '' @ join '' '' (map (\<lambda>e. ''( '' @
           join '' < '' (str_int (cell_id n0) # map (node_part (Some e)) rest) @ '' )'') es) @ '' )'')"
proof -
  have ex: "has_non_contiguous_lattice w"
    using find_in_stack [OF assms(2)] assms(1) by (simp add: has_non_contiguous_lattice_def)
  have "build_union_paths w =
        Inr (''( '' @ join '' '' (map (\<lambda>e. ''( '' @
           join '' < '' (str_int (cell_id n0) # map (node_part (Some e)) rest) @ '' )'') es) @ '' )'')"
    using assms by (simp add: build_union_paths_def get_all_elements_def union_loop_Cons [OF assms(1)])
  with ex assms(1) show ?thesis
    by (simp add: build_tally_path_def)
qed

lemma node_part_override: "node_part (Some e) node = override_token e node"
  by (auto simp: node_part_def override_token_def non_contiguous_node_def is_contiguous_def
      is_non_contiguous_def split: option.splits)

lemma node_part_range:
  assumes "\<forall>sp. lattice_spec node = Some sp \<longrightarrow> is_contiguous sp"
  shows "node_part None node = range_token_part node"
  using assms by (auto simp: node_part_def range_token_part_def split: option.splits)

text \<open>
  C3, as the code has it. For a non-empty stack in which no node carries a discrete
  spec, \<open>build_tally_path\<close> emits the bare cell identifier of the node at index \<open>0\<close>,
  then for every later node its cell identifier with the range token appended when the
  node is a lattice node with a spec, joins the tokens with \<open>'' < ''\<close> and wraps the
  result in one pair of parentheses. For scenario B this gives
  \<^verbatim>\<open>( 101 < 50[3 4 0] < 1 )\<close>.
\<close>

theorem build_tally_path_contiguous:
  assumes "universe_stack w = n0 # rest"
    and "\<forall>node \<in> set (n0 # rest). \<forall>sp. lattice_spec node = Some sp \<longrightarrow> is_contiguous sp"
  shows "build_tally_path w =
         Inr (''( '' @ join '' < '' (str_int (cell_id n0) # map range_token_part rest) @ '' )'')"
proof -
  have none: "\<not> has_non_contiguous_lattice w"
    using assms
    by (auto simp: has_non_contiguous_lattice_def list_ex_iff non_contiguous_node_def
        is_contiguous_def is_non_contiguous_def split: option.splits)
  have parts: "map (node_part None) rest = map range_token_part rest"
    using assms(2) by (intro map_cong refl node_part_range) simp
  have "build_single_path w None =
        Inr (join '' < '' (str_int (cell_id n0) # map range_token_part rest))"
    unfolding build_single_path_Cons [OF assms(1)] parts ..
  with none assms(1) show ?thesis
    by (simp add: build_tally_path_def)
qed

text \<open>The theorem of C3 at scenario B.\<close>

theorem build_tally_path_contiguous_witness:
  "universe_stack scenario_B \<noteq> []
   \<and> \<not> list_ex (\<lambda>node. case lattice_spec node of None \<Rightarrow> False
                                  | Some sp \<Rightarrow> \<not> is_contiguous sp)
         (universe_stack scenario_B)
   \<and> build_tally_path scenario_B = Inr ''( 101 < 50[3 4 0] < 1 )''"
proof -
  let ?n0 = "mk_Node 101 (Some 5) None False None"
  let ?rest = "[mk_Node 50 (Some 100) (Some 5) True (Some (Contiguous (Single 3) (Single 4) (Single 0))),
                mk_Node 1 (Some 0) (Some 100) False None]"
  have st: "universe_stack scenario_B = ?n0 # ?rest"
    by (simp add: scenario_B_def)
  have cont: "\<forall>node \<in> set (?n0 # ?rest). \<forall>sp. lattice_spec node = Some sp \<longrightarrow> is_contiguous sp"
    by (simp add: mk_Node_def Contiguous_def is_contiguous_def)
  have rendered: "''( '' @ join '' < '' (str_int (cell_id ?n0) # map range_token_part ?rest) @ '' )''
              = ''( 101 < 50[3 4 0] < 1 )''"
    by code_simp
  have none: "\<not> list_ex (\<lambda>node. case lattice_spec node of None \<Rightarrow> False
                                  | Some sp \<Rightarrow> \<not> is_contiguous sp) (?n0 # ?rest)"
    by (simp add: mk_Node_def Contiguous_def is_contiguous_def)
  show ?thesis
    using build_tally_path_contiguous [OF st cont] none st rendered by simp
qed

text \<open>
  C3 as the specification states it, with the range token on every lattice node with a
  spec, fails on a stack whose index \<open>0\<close> is such a node: the code returns
  \<^verbatim>\<open>( 50 < 1 )\<close> where the stated rule gives \<^verbatim>\<open>( 50[3 4 0] < 1 )\<close>.
\<close>

theorem contiguous_token_at_index_0_counterexample:
  "build_tally_path lattice_target = Inr ''( 50 < 1 )''
   \<and> ''( '' @ join '' < '' (map range_token_part (universe_stack lattice_target)) @ '' )''
       = ''( 50[3 4 0] < 1 )''
   \<and> build_tally_path lattice_target
       \<noteq> Inr (''( '' @ join '' < '' (map range_token_part (universe_stack lattice_target)) @ '' )'')"
  by code_simp

text \<open>
  C2, as the code has it. When the first node with a discrete spec has the elements
  \<open>es\<close>, \<open>build_single_path\<close> succeeds for every element, and \<open>build_tally_path\<close> takes
  the path built for each element of \<open>es\<close> in turn, wraps it as \<open>''( ''\<close>, path,
  \<open>'' )''\<close> (a space inside each parenthesis), joins these with a single space and
  wraps the whole the same way.
\<close>

theorem build_tally_path_union:
  assumes "find non_contiguous_node (universe_stack w) = Some node"
    and "lattice_spec node = Some sp" and "elements sp = Some es"
  shows "(\<forall>e. \<not> isl (build_single_path w (Some e)))
         \<and> build_tally_path w =
             Inr (''( '' @ join '' ''
               (map (\<lambda>e. ''( '' @ projr (build_single_path w (Some e)) @ '' )'') es) @ '' )'')"
proof -
  from find_in_stack [OF assms(1)] obtain n0 rest where st: "universe_stack w = n0 # rest"
    by (cases "universe_stack w") auto
  have single: "build_single_path w (Some e) =
      Inr (join '' < '' (str_int (cell_id n0) # map (node_part (Some e)) rest))" for e
    using st by (rule build_single_path_Cons)
  have "find non_contiguous_node (n0 # rest) = Some node"
    using assms(1) st by simp
  from build_tally_path_first_discrete [OF st this assms(2,3)] show ?thesis
    by (simp add: single)
qed

text \<open>The theorem of C2 at scenario C, with the string the code returns.\<close>

theorem build_tally_path_union_witness:
  "find non_contiguous_node (universe_stack scenario_C)
     = Some (mk_Node 50 (Some 100) (Some 5) True
          (Some (Discrete [(0, 0, 0), (9, 9, 0), (0, 9, 0), (9, 0, 0)])))
   \<and> build_tally_path scenario_C =
       Inr ''( ( 101 < 50[0 0 0] < 1 ) ( 101 < 50[9 9 0] < 1 ) ( 101 < 50[0 9 0] < 1 ) ( 101 < 50[9 0 0] < 1 ) )''"
proof -
  let ?es = "[(0, 0, 0), (9, 9, 0), (0, 9, 0), (9, 0, 0 :: int)]"
  let ?node = "mk_Node 50 (Some 100) (Some 5) True (Some (Discrete ?es))"
  have f: "find non_contiguous_node (universe_stack scenario_C) = Some ?node"
    by code_simp
  have sp: "lattice_spec ?node = Some (Discrete ?es)" "elements (Discrete ?es) = Some ?es"
    by (simp_all add: mk_Node_def Discrete_def)
  have rendered: "''( '' @ join '' ''
       (map (\<lambda>e. ''( '' @ projr (build_single_path scenario_C (Some e)) @ '' )'') ?es) @ '' )''
     = ''( ( 101 < 50[0 0 0] < 1 ) ( 101 < 50[9 9 0] < 1 ) ( 101 < 50[0 9 0] < 1 ) ( 101 < 50[9 0 0] < 1 ) )''"
    by code_simp
  show ?thesis
    using build_tally_path_union [OF f sp] f rendered by simp
qed

text \<open>
  C2 as the specification states it gives, for scenario C, a string with no space
  inside the inner parentheses; that is not what the code returns.
\<close>

theorem union_inner_parentheses_counterexample:
  "build_tally_path scenario_C
     \<noteq> Inr ''( (101 < 50[0 0 0] < 1) (101 < 50[9 9 0] < 1) (101 < 50[0 9 0] < 1) (101 < 50[9 0 0] < 1) )''"
  by code_simp

text \<open>
  C6, as the code has it. When several nodes carry a discrete spec, the elements of the
  first one (index \<open>0\<close> upward) determine the paths; in the path of an element \<open>e\<close>
  every node after index \<open>0\<close> that is a lattice node with a discrete spec, the first
  and the others alike, has the index token of \<open>e\<close> appended to its cell identifier.
  The elements of the other discrete specs are not used.
\<close>

theorem union_paths_override_every_discrete_node:
  assumes "universe_stack w = n0 # rest"
    and "find non_contiguous_node (n0 # rest) = Some first"
    and "lattice_spec first = Some sp" and "elements sp = Some es"
  shows "build_tally_path w =
         Inr (''( '' @ join '' '' (map (\<lambda>e. ''( '' @
           join '' < '' (str_int (cell_id n0) # map (override_token e) rest) @ '' )'') es) @ '' )'')"
proof -
  have "node_part (Some e) = override_token e" for e
    by (intro ext) (rule node_part_override)
  with build_tally_path_first_discrete [OF assms] show ?thesis by simp
qed

text \<open>The theorem of C6 at a stack with two discrete nodes.\<close>

theorem union_paths_override_every_discrete_node_witness:
  "find non_contiguous_node (universe_stack two_discrete)
     = Some (mk_Node 50 (Some 7) (Some 5) True (Some (Discrete [(0, 0, 0), (1, 1, 0)])))
   \<and> build_tally_path two_discrete =
       Inr ''( ( 101 < 50[0 0 0] < 60[0 0 0] < 1 ) ( 101 < 50[1 1 0] < 60[1 1 0] < 1 ) )''"
proof -
  let ?es = "[(0, 0, 0), (1, 1, 0 :: int)]"
  let ?n0 = "mk_Node 101 (Some 5) None False None"
  let ?first = "mk_Node 50 (Some 7) (Some 5) True (Some (Discrete ?es))"
  let ?rest = "[?first, mk_Node 60 (Some 100) (Some 7) True (Some (Discrete [(5, 5, 5)])),
                mk_Node 1 (Some 0) (Some 100) False None]"
  have st: "universe_stack two_discrete = ?n0 # ?rest"
    by (simp add: two_discrete_def)
  have f: "find non_contiguous_node (?n0 # ?rest) = Some ?first"
    by code_simp
  have sp: "lattice_spec ?first = Some (Discrete ?es)" "elements (Discrete ?es) = Some ?es"
    by (simp_all add: mk_Node_def Discrete_def)
  have rendered: "''( '' @ join '' '' (map (\<lambda>e. ''( '' @
           join '' < '' (str_int (cell_id ?n0) # map (override_token e) ?rest) @ '' )'') ?es) @ '' )''
     = ''( ( 101 < 50[0 0 0] < 60[0 0 0] < 1 ) ( 101 < 50[1 1 0] < 60[1 1 0] < 1 ) )''"
    by code_simp
  show ?thesis
    using union_paths_override_every_discrete_node [OF st f sp] f st rendered by simp
qed

text \<open>
  C6 as the specification states it has the second discrete node contribute its bare
  cell identifier \<^verbatim>\<open>60\<close>; the code appends the element of the first node to it.
\<close>

theorem later_discrete_node_counterexample:
  "build_tally_path two_discrete =
     Inr ''( ( 101 < 50[0 0 0] < 60[0 0 0] < 1 ) ( 101 < 50[1 1 0] < 60[1 1 0] < 1 ) )''
   \<and> first_match_union (universe_stack two_discrete) =
     ''( ( 101 < 50[0 0 0] < 60 < 1 ) ( 101 < 50[1 1 0] < 60 < 1 ) )''
   \<and> build_tally_path two_discrete \<noteq> Inr (first_match_union (universe_stack two_discrete))"
  by code_simp

subsection \<open>Construction and the empty selection\<close>

text \<open>
  C4 as the specification states it fails: building a spec with the range \<open>(5, 2)\<close>, or
  with an empty element list, returns the spec and no error.
\<close>

theorem unchecked_construction_counterexample:
  "LatticeSpec_init (Some (Range 5 2)) (Some (Single 0)) (Some (Single 0)) None
     = Inr (Contiguous (Range 5 2) (Single 0) (Single 0))
   \<and> LatticeSpec_init (Some (Range 5 2)) (Some (Single 0)) (Some (Single 0)) None
     \<noteq> Inl InvalidRange
   \<and> LatticeSpec_init None None None (Some []) = Inr (Discrete [])
   \<and> LatticeSpec_init None None None (Some []) \<noteq> Inl EmptySelection"
  by (simp add: LatticeSpec_init_def Contiguous_def Discrete_def)

text \<open>
  C4, as the code has it. Building a \<open>LatticeSpec\<close> never fails and stores the fields as
  given. Finishing with an empty selection produces no spec: \<open>create_lattice_spec\<close>
  returns \<open>None\<close>, and the finish key in \<open>run\<close> leaves the selector as it was, in the
  loop, after reading and dropping one more key.
\<close>

theorem construction_unchecked_empty_finalize:
  "LatticeSpec_init di dj dk es
     = Inr \<lparr>spec_i = di, spec_j = dj, spec_k = dk, elements = es\<rparr>
   \<and> (selected s = {} \<longrightarrow>
        create_lattice_spec s = None
        \<and> run s [ord CHR ''d''] = (Awaiting_key, s)
        \<and> run s (ord CHR ''d'' # any_key # keys) = run s keys)"
proof -
  have d: "ord CHR ''d'' \<noteq> ord CHR ''q''" "ord CHR ''d'' \<noteq> 27"
    "ord CHR ''d'' \<noteq> ord (CHR 0x0A)" "ord CHR ''d'' \<noteq> ord CHR '' ''"
    by (simp_all add: ord_def)
  show ?thesis
    by (simp add: LatticeSpec_init_def create_lattice_spec_def d)
qed

text \<open>The theorem of C4 at a freshly initialised selector.\<close>

theorem construction_unchecked_empty_finalize_witness:
  "selected (selector_init 1 ((0, 9), (0, 9), (0, 0)) False) = {}
   \<and> create_lattice_spec (selector_init 1 ((0, 9), (0, 9), (0, 0)) False) = None
   \<and> run (selector_init 1 ((0, 9), (0, 9), (0, 0)) False) [ord CHR ''d'']
       = (Awaiting_key, selector_init 1 ((0, 9), (0, 9), (0, 0)) False)"
proof -
  have e: "selected (selector_init 1 ((0, 9), (0, 9), (0, 0)) False) = {}"
    by (simp add: selector_init_def)
  from construction_unchecked_empty_finalize
    [of None None None None "selector_init 1 ((0, 9), (0, 9), (0, 0)) False"] e
  show ?thesis by simp
qed

end
